theory Spec2Isabelle
  imports Complex_Main
begin

section \<open>Text\<close>

text \<open>
  A Python \<open>str\<close> is modelled as a \<open>string\<close> whose characters are the code points
  below 256. \<open>isspace\<close>, \<open>strip\<close> and \<open>lower\<close> are \<open>str.isspace\<close>, \<open>str.strip()\<close>
  and \<open>str.lower()\<close> on that range. No result below depends on what \<open>lower\<close> does to
  a particular character.
\<close>

definition isspace :: "char \<Rightarrow> bool" where
  "isspace c =
     (let n = (of_char c :: nat)
      in (9 \<le> n \<and> n \<le> 13) \<or> (28 \<le> n \<and> n \<le> 32) \<or> n = 133 \<or> n = 160)"

definition strip :: "string \<Rightarrow> string" where
  "strip s = rev (dropWhile isspace (rev (dropWhile isspace s)))"

definition lower_char :: "char \<Rightarrow> char" where
  "lower_char c =
     (let n = (of_char c :: nat)
      in if (65 \<le> n \<and> n \<le> 90) \<or> (192 \<le> n \<and> n \<le> 222 \<and> n \<noteq> 215)
         then char_of (n + 32) else c)"

definition lower :: "string \<Rightarrow> string" where
  "lower s = map lower_char s"

definition join :: "string \<Rightarrow> string list \<Rightarrow> string" where
  "join sep xs = (case xs of [] \<Rightarrow> [] | y # ys \<Rightarrow> y @ concat (map (\<lambda>z. sep @ z) ys))"

definition digit_char :: "nat \<Rightarrow> char" where
  "digit_char d = ''0123456789'' ! d"

fun str_of_nat :: "nat \<Rightarrow> string" where
  "str_of_nat n = (if n < 10 then [digit_char n] else str_of_nat (n div 10) @ [digit_char (n mod 10)])"

declare str_of_nat.simps [simp del]

text \<open>The decimal digits of a non-negative integer.\<close>

function str_of_int :: "int \<Rightarrow> string" where
  "str_of_int n =
     (if n < 10 then [digit_char (nat n)]
      else str_of_int (n div 10) @ [digit_char (nat (n mod 10))])"
  by pat_completeness auto
termination
  by (relation "measure nat") auto

declare str_of_int.simps [simp del]

definition zfill :: "nat \<Rightarrow> string \<Rightarrow> string" where
  "zfill w s = replicate (w - length s) (CHR ''0'') @ s"

section \<open>Floating-point values\<close>

text \<open>
  A Python \<open>float\<close> is an IEEE 754 binary64 number: a finite number, a zero with a
  sign, one of the two infinities, or not-a-number. \<open>Finite q\<close> is the finite number
  whose exact value is the rational \<open>q\<close> (\<open>Finite 0\<close> is the positive zero), and
  \<open>NegZero\<close> is the negative zero. Every operation below computes the exact rational
  result and then rounds it to binary64 with \<open>binary64\<close>, as the hardware and
  CPython's correctly rounded conversions do.
\<close>

datatype pyfloat = Finite rat | NegZero | PosInf | NegInf | NaN

text \<open>Rounding to the nearest integer, ties to the even one.\<close>

definition round_half_even :: "rat \<Rightarrow> int" where
  "round_half_even q =
     (let f = \<lfloor>q\<rfloor>; d = q - of_int f
      in if d < 1 / 2 then f
         else if 1 / 2 < d then f + 1
         else if even f then f else f + 1)"

text \<open>The number of binary digits of a positive integer (\<open>int.bit_length\<close>).\<close>

function bit_length :: "int \<Rightarrow> int" where
  "bit_length n = (if n \<le> 0 then 0 else 1 + bit_length (n div 2))"
  by pat_completeness auto
termination
  by (relation "measure nat") auto

declare bit_length.simps [simp del]

definition pow2 :: "int \<Rightarrow> rat" where
  "pow2 e = (if 0 \<le> e then 2 ^ nat e else 1 / 2 ^ nat (- e))"

text \<open>
  \<open>binary64 neg a\<close> is the binary64 number nearest to the rational \<open>a \<ge> 0\<close>, with the
  sign \<open>neg\<close>: round to nearest, ties to even. \<open>e\<close> is the binary exponent of \<open>a\<close>
  (\<open>2 ^ e \<le> a < 2 ^ (e + 1)\<close>), at least \<open>-1022\<close>, where the subnormal numbers begin;
  the significand has 53 bits, so neighbouring numbers are \<open>2 ^ (e - 52)\<close> apart. A
  result of \<open>2 ^ 1024\<close> or more is an infinity, and a result of zero keeps the sign.
\<close>

definition binary64 :: "bool \<Rightarrow> rat \<Rightarrow> pyfloat" where
  "binary64 neg a =
     (if a = 0 then (if neg then NegZero else Finite 0)
      else
        (let (p, q) = quotient_of a;
             d = bit_length p - bit_length q;
             e = (if pow2 d \<le> a then d else d - 1);
             ulp = pow2 (max e (- 1022) - 52);
             m = round_half_even (a / ulp);
             r = of_int m * ulp
         in if m = 0 then (if neg then NegZero else Finite 0)
            else if 1023 < e \<or> (e = 1023 \<and> m = 2 ^ 53) then (if neg then NegInf else PosInf)
            else Finite (if neg then - r else r)))"

definition is_digit :: "char \<Rightarrow> bool" where
  "is_digit c = (48 \<le> (of_char c :: nat) \<and> (of_char c :: nat) \<le> 57)"

definition digit_val :: "char \<Rightarrow> int" where
  "digit_val c = of_char c - 48"

text \<open>
  \<open>digitpart ::= digit (["_"] digit)*\<close>. Returns the value read so far, the number of
  digits read, and the rest of the text.
\<close>

fun digitpart :: "int \<Rightarrow> nat \<Rightarrow> string \<Rightarrow> int \<times> nat \<times> string" where
  "digitpart v k [] = (v, k, [])"
| "digitpart v k (c # cs) =
     (if is_digit c then digitpart (10 * v + digit_val c) (Suc k) cs
      else if c = CHR ''_'' \<and> 0 < k \<and> (case cs of [] \<Rightarrow> False | d # _ \<Rightarrow> is_digit d)
           then digitpart v k cs
      else (v, k, c # cs))"

text \<open>\<open>exponent ::= ("e" | "E") ["+" | "-"] digitpart\<close>, optional; \<open>None\<close> when malformed.\<close>

definition exponent :: "string \<Rightarrow> (int \<times> string) option" where
  "exponent s =
     (case s of
        [] \<Rightarrow> Some (0, [])
      | c # cs \<Rightarrow>
          if c = CHR ''e'' \<or> c = CHR ''E'' then
            (let (neg, ds) =
                   (case cs of
                      [] \<Rightarrow> (False, [])
                    | d # ds' \<Rightarrow>
                        if d = CHR ''-'' then (True, ds')
                        else if d = CHR ''+'' then (False, ds')
                        else (False, cs));
                 (v, k, rest) = digitpart 0 0 ds
             in if k = 0 then None
                else Some (if neg then - v else v, rest))
          else Some (0, s))"

definition scale10 :: "rat \<Rightarrow> int \<Rightarrow> rat" where
  "scale10 q e = (if 0 \<le> e then q * 10 ^ nat e else q / 10 ^ nat (- e))"

text \<open>
  \<open>number ::= [digitpart] "." digitpart | digitpart ["."]\<close>, followed by the optional
  exponent and the end of the text.
\<close>

definition floatnumber :: "string \<Rightarrow> rat option" where
  "floatnumber s =
     (let (ip, ik, r1) = digitpart 0 0 s;
          (fp, fk, r2) =
            (case r1 of
               [] \<Rightarrow> (0, 0, [])
             | c # cs \<Rightarrow> if c = CHR ''.'' then digitpart 0 0 cs else (0, 0, r1))
      in if ik = 0 \<and> fk = 0 then None
         else (case exponent r2 of
                 None \<Rightarrow> None
               | Some (e, r3) \<Rightarrow>
                   if r3 \<noteq> [] then None
                   else Some (scale10 (of_int (ip * 10 ^ fk + fp) / 10 ^ fk) e)))"

text \<open>
  Python's \<open>float(s)\<close> on a string: \<open>None\<close> stands for \<open>ValueError\<close>. Surrounding
  whitespace is ignored, a sign is optional, \<open>inf\<close>, \<open>infinity\<close> and \<open>nan\<close> are read
  in any letter case. The value of a numeral is its decimal value rounded to binary64:
  a numeral that is too large gives an infinity, one that is too small a zero.
\<close>

definition float_of_str :: "string \<Rightarrow> pyfloat option" where
  "float_of_str s =
     (let t = strip s;
          (neg, body) =
            (case t of
               [] \<Rightarrow> (False, [])
             | c # cs \<Rightarrow>
                 if c = CHR ''-'' then (True, cs)
                 else if c = CHR ''+'' then (False, cs)
                 else (False, t));
          w = lower body
      in if w = ''inf'' \<or> w = ''infinity'' then Some (if neg then NegInf else PosInf)
         else if w = ''nan'' then Some NaN
         else (case floatnumber body of
                 None \<Rightarrow> None
               | Some q \<Rightarrow> Some (binary64 neg q)))"

text \<open>
  \<open>x / n\<close> for a float \<open>x\<close> and a positive integer \<open>n\<close>: the quotient, rounded to
  binary64. (The integer is first converted to a float, which is exact for a number of
  participants below \<open>2 ^ 53\<close>.)
\<close>

definition fdiv :: "pyfloat \<Rightarrow> nat \<Rightarrow> pyfloat" where
  "fdiv x n = (case x of Finite q \<Rightarrow> binary64 (q < 0) (\<bar>q\<bar> / of_nat n) | _ \<Rightarrow> x)"

text \<open>
  \<open>round(x, 2)\<close>: the exact value of \<open>x\<close> is rounded to two decimals, ties to even,
  and that decimal number is rounded to binary64. Zeros, infinities and not-a-number
  round to themselves.
\<close>

definition round2 :: "pyfloat \<Rightarrow> pyfloat" where
  "round2 x =
     (case x of
        Finite q \<Rightarrow> binary64 (q < 0) (of_int (round_half_even (\<bar>q\<bar> * 100)) / 100)
      | _ \<Rightarrow> x)"

text \<open>
  The format specification \<open>.2f\<close>: the exact value rounded to two decimals, ties to
  even, with the sign of the number.
\<close>

definition fmt2 :: "pyfloat \<Rightarrow> string" where
  "fmt2 x =
     (case x of
        Finite q \<Rightarrow>
          (let r = round_half_even (\<bar>q\<bar> * 100)
           in (if q < 0 then ''-'' else '''') @ str_of_int (r div 100) @ ''.''
              @ zfill 2 (str_of_int (r mod 100)))
      | NegZero \<Rightarrow> ''-0.00''
      | PosInf \<Rightarrow> ''inf''
      | NegInf \<Rightarrow> ''-inf''
      | NaN \<Rightarrow> ''nan'')"

section \<open>Dictionaries\<close>

text \<open>
  A Python \<open>dict\<close> keeps its keys in insertion order, so it is an association list.
  \<open>dict_set\<close> is \<open>d[k] = v\<close>: it overwrites the value of a present key in place and
  appends an absent one. \<open>dict_del\<close> is \<open>del d[k]\<close>, which the source only runs
  after testing \<open>k in d\<close>.
\<close>

type_synonym 'v pydict = "(string \<times> 'v) list"

definition dict_keys :: "'v pydict \<Rightarrow> string list" where
  "dict_keys d = map fst d"

definition dict_contains :: "string \<Rightarrow> 'v pydict \<Rightarrow> bool" where
  "dict_contains k d = (k \<in> set (dict_keys d))"

definition dict_get :: "'v pydict \<Rightarrow> string \<Rightarrow> 'v option" where
  "dict_get d k = map_of d k"

fun dict_set :: "string \<Rightarrow> 'v \<Rightarrow> 'v pydict \<Rightarrow> 'v pydict" where
  "dict_set k v [] = [(k, v)]"
| "dict_set k v ((k', v') # d) = (if k' = k then (k', v) # d else (k', v') # dict_set k v d)"

definition dict_del :: "string \<Rightarrow> 'v pydict \<Rightarrow> 'v pydict" where
  "dict_del k d = filter (\<lambda>(k', v). k' \<noteq> k) d"

section \<open>The bot\<close>

text \<open>
  The exceptions that occur in the program. Each of these classes derives from
  \<open>Exception\<close>, so the clause \<open>except Exception\<close> catches every one of them;
  \<open>APIError\<close> stands for the failures of the spreadsheet service (network,
  authorisation, quota) with their message.
\<close>

datatype exn = ValueError | ZeroDivisionError | KeyError string | WorksheetNotFound | APIError string

text \<open>The conversation states of the source, and \<open>ConversationHandler.END\<close>.\<close>

datatype state =
    WAITING_FOR_PARTICIPANTS
  | WAITING_FOR_BILL
  | REMOVING_PARTICIPANT
  | WAITING_FOR_PURCHASER_INFO
  | END

record datetime =
  dt_year :: nat
  dt_month :: nat
  dt_day :: nat

text \<open>\<open>strftime("%Y-%m-%d")\<close>\<close>

definition strftime_ymd :: "datetime \<Rightarrow> string" where
  "strftime_ymd d =
     zfill 4 (str_of_nat (dt_year d)) @ ''-'' @ zfill 2 (str_of_nat (dt_month d)) @ ''-''
     @ zfill 2 (str_of_nat (dt_day d))"

text \<open>
  The meal tracking variables of \<open>MealCostBot\<close>. The token and the spreadsheet
  client are configuration and are not modelled.
\<close>

record meal_cost_bot =
  current_meal_participants :: "pyfloat pydict"
  current_meal_total_bill :: pyfloat
  current_meal_date :: datetime
  current_meal_purchaser :: "string pydict"

definition init_bot :: "datetime \<Rightarrow> meal_cost_bot" where
  "init_bot now =
     \<lparr>current_meal_participants = [],
      current_meal_total_bill = Finite 0,
      current_meal_date = now,
      current_meal_purchaser = [(''name'', ''''), (''contact'', ''''), (''additional_info'', '''')]\<rparr>"

datatype markup = NoMarkup | ReplyKeyboardMarkup "string list list" | ReplyKeyboardRemove

datatype reply = Reply string markup

datatype cell = Str string | Num pyfloat

datatype sheet_op = AddWorksheet string nat nat | AppendRow "cell list"

text \<open>
  A log record: \<open>Info x\<close> is \<open>logger.info\<close> of the synced total \<open>x\<close>, \<open>Error e\<close> is
  \<open>logger.error\<close> of the exception \<open>e\<close>.
\<close>

datatype log_entry = Info pyfloat | Error exn

text \<open>
  What a handler does: the bot's variables after it, the messages sent with
  \<open>reply_text\<close>, the state it returns, the calls that reached the spreadsheet, and the
  log records written.
\<close>

record outcome =
  self :: meal_cost_bot
  replies :: "reply list"
  next_state :: state
  sheet_ops :: "sheet_op list"
  logged :: "log_entry list"

definition respond :: "meal_cost_bot \<Rightarrow> reply list \<Rightarrow> state \<Rightarrow> outcome" where
  "respond b rs st = \<lparr>self = b, replies = rs, next_state = st, sheet_ops = [], logged = []\<rparr>"

definition start :: "meal_cost_bot \<Rightarrow> outcome" where
  "start b =
     respond b
       [Reply (''Welcome to Meal Cost Distribution Bot! ''
               @ ''Use /start_meal to begin tracking a new meal's participants.'') NoMarkup]
       END"

definition start_meal :: "datetime \<Rightarrow> meal_cost_bot \<Rightarrow> outcome" where
  "start_meal now b =
     respond
       (b\<lparr>current_meal_participants := [],
          current_meal_total_bill := Finite 0,
          current_meal_date := now,
          current_meal_purchaser := [(''name'', '''')]\<rparr>)
       [Reply (''Starting a new meal. First, let's collect the purchaser's information.\<newline>\<newline>''
               @ ''Please enter the purchaser's name:'') NoMarkup]
       WAITING_FOR_PURCHASER_INFO"

definition collect_purchaser_name :: "meal_cost_bot \<Rightarrow> string \<Rightarrow> outcome" where
  "collect_purchaser_name b txt =
     (let name = strip txt
      in respond
           (b\<lparr>current_meal_purchaser := dict_set ''name'' name (current_meal_purchaser b)\<rparr>)
           [Reply (''Thanks, '' @ name @ ''. ''
                   @ ''Purchaser information recorded. Now, please enter the names of all participants, ''
                   @ ''one name per message. Use /remove to remove a participant, ''
                   @ ''/list to see current participants, or /done when finished.'') NoMarkup]
           WAITING_FOR_PARTICIPANTS)"

definition add_participant :: "meal_cost_bot \<Rightarrow> string \<Rightarrow> outcome" where
  "add_participant b txt =
     (let participant_name = strip txt
      in if lower participant_name \<in> set (map lower (dict_keys (current_meal_participants b)))
         then respond b
                [Reply (participant_name @ '' is already in the participant list.'') NoMarkup]
                WAITING_FOR_PARTICIPANTS
         else respond
                (b\<lparr>current_meal_participants :=
                     dict_set participant_name (Finite 0) (current_meal_participants b)\<rparr>)
                [Reply (''Added '' @ participant_name @ '' to the meal.'') NoMarkup]
                WAITING_FOR_PARTICIPANTS)"

text \<open>\<open>[xs[i:i+3] for i in range(0, len(xs), 3)]\<close>\<close>

fun chunks3 :: "'a list \<Rightarrow> 'a list list" where
  "chunks3 (x # y # z # rest) = [x, y, z] # chunks3 rest"
| "chunks3 [] = []"
| "chunks3 xs = [xs]"

definition remove_participant :: "meal_cost_bot \<Rightarrow> outcome" where
  "remove_participant b =
     (if current_meal_participants b = []
      then respond b [Reply ''No participants to remove. Add participants first.'' NoMarkup]
             WAITING_FOR_PARTICIPANTS
      else respond b
             [Reply ''Select a participant to remove:''
                (ReplyKeyboardMarkup (chunks3 (dict_keys (current_meal_participants b))))]
             REMOVING_PARTICIPANT)"

definition confirm_participant_removal :: "meal_cost_bot \<Rightarrow> string \<Rightarrow> outcome" where
  "confirm_participant_removal b txt =
     (let participant_to_remove = strip txt
      in if dict_contains participant_to_remove (current_meal_participants b)
         then respond
                (b\<lparr>current_meal_participants :=
                     dict_del participant_to_remove (current_meal_participants b)\<rparr>)
                [Reply (''Removed '' @ participant_to_remove @ '' from the meal participants.'')
                   ReplyKeyboardRemove]
                WAITING_FOR_PARTICIPANTS
         else respond b
                [Reply (''Participant '' @ participant_to_remove @ '' not found.'')
                   ReplyKeyboardRemove]
                WAITING_FOR_PARTICIPANTS)"

definition list_participants :: "meal_cost_bot \<Rightarrow> outcome" where
  "list_participants b =
     (if current_meal_participants b = []
      then respond b [Reply ''No participants added yet.'' NoMarkup] WAITING_FOR_PARTICIPANTS
      else respond b
             [Reply (''Current participants:\<newline>''
                     @ join ''\<newline>'' (dict_keys (current_meal_participants b))) NoMarkup]
             WAITING_FOR_PARTICIPANTS)"

definition finish_participants :: "meal_cost_bot \<Rightarrow> outcome" where
  "finish_participants b =
     (if current_meal_participants b = []
      then respond b [Reply ''No participants added. Please add participants first.'' NoMarkup]
             WAITING_FOR_PARTICIPANTS
      else respond b
             [Reply (''Participants for this meal: ''
                     @ join '', '' (dict_keys (current_meal_participants b)) @ ''\<newline>''
                     @ ''Now, please send the total bill amount.'') NoMarkup]
             WAITING_FOR_BILL)"

definition cancel :: "meal_cost_bot \<Rightarrow> outcome" where
  "cancel b = respond b [Reply ''Meal tracking cancelled.'' ReplyKeyboardRemove] END"

subsection \<open>The spreadsheet service\<close>

text \<open>
  The spreadsheet service is outside the program. A \<open>sheets_env\<close> says, for one run
  of the sync, what each call to the service does: \<open>None\<close> when it succeeds, \<open>Some e\<close>
  when it raises \<open>e\<close>. \<open>worksheet\<close> raising \<open>WorksheetNotFound\<close> means that the
  worksheet named "Meal Costs" does not exist yet.
\<close>

record sheets_env =
  open_by_key :: "exn option"
  worksheet :: "exn option"
  add_worksheet :: "exn option"
  append_row :: "cell list \<Rightarrow> exn option"

definition header_row :: "cell list" where
  "header_row =
     [Str ''Date'', Str ''Purchaser Name'', Str ''Total Bill'', Str ''Participants'',
      Str ''Individual Share'']"

text \<open>
  The body of the outer \<open>try\<close> of \<open>sync_to_google_sheets\<close>: the exception that
  leaves it, if any, and the calls that changed the spreadsheet up to that point.
\<close>

definition sync_body ::
  "sheets_env \<Rightarrow> meal_cost_bot \<Rightarrow> pyfloat \<Rightarrow> pyfloat \<Rightarrow> exn option \<times> sheet_op list" where
  "sync_body env b total_bill individual_share =
     (case open_by_key env of
        Some e \<Rightarrow> (Some e, [])
      | None \<Rightarrow>
          (let (raised, created) =
                 (case worksheet env of
                    None \<Rightarrow> (None, [])
                  | Some e \<Rightarrow>
                      if e = WorksheetNotFound then
                        (case add_worksheet env of
                           Some e' \<Rightarrow> (Some e', [])
                         | None \<Rightarrow>
                             (case append_row env header_row of
                                Some e' \<Rightarrow> (Some e', [AddWorksheet ''Meal Costs'' 1000 20])
                              | None \<Rightarrow>
                                  (None, [AddWorksheet ''Meal Costs'' 1000 20,
                                          AppendRow header_row])))
                      else (Some e, []))
           in case raised of
                Some e \<Rightarrow> (Some e, created)
              | None \<Rightarrow>
                  (let participants = join '', '' (dict_keys (current_meal_participants b))
                   in case dict_get (current_meal_purchaser b) ''name'' of
                        None \<Rightarrow> (Some (KeyError ''name''), created)
                      | Some name \<Rightarrow>
                          (let row = [Str (strftime_ymd (current_meal_date b)), Str name,
                                      Num total_bill, Str participants, Num individual_share]
                           in case append_row env row of
                                Some e \<Rightarrow> (Some e, created)
                              | None \<Rightarrow> (None, created @ [AppendRow row])))))"

text \<open>
  \<open>sync_to_google_sheets\<close>: the calls that changed the spreadsheet and the log
  records. The clause \<open>except Exception\<close> turns an exception of the body into an
  error record, and the function returns.
\<close>

definition sync_to_google_sheets ::
  "sheets_env \<Rightarrow> meal_cost_bot \<Rightarrow> pyfloat \<Rightarrow> pyfloat \<Rightarrow> sheet_op list \<times> log_entry list" where
  "sync_to_google_sheets env b total_bill individual_share =
     (case sync_body env b total_bill individual_share of
        (None, ops) \<Rightarrow> (ops, [Info total_bill])
      | (Some e, ops) \<Rightarrow> (ops, [Error e]))"

subsection \<open>The bill\<close>

text \<open>
  \<open>process_bill\<close>. \<open>float()\<close> raising \<open>ValueError\<close> is the \<open>except\<close> branch; the
  division raises \<open>ZeroDivisionError\<close> when there is no participant, which no clause
  catches, so it leaves the handler (\<open>Inl\<close>). The loop over the dictionary assigns the
  share key by key.
\<close>

definition result_message :: "pyfloat pydict \<Rightarrow> pyfloat \<Rightarrow> string" where
  "result_message participants total_bill =
     ''Bill Split:\<newline>''
     @ concat (map (\<lambda>(participant, share). participant @ '': $'' @ fmt2 share @ ''\<newline>'')
                 participants)
     @ ''\<newline>Total Bill: $'' @ fmt2 total_bill"

definition process_bill :: "sheets_env \<Rightarrow> meal_cost_bot \<Rightarrow> string \<Rightarrow> exn + outcome" where
  "process_bill env b txt =
     (case float_of_str (strip txt) of
        None \<Rightarrow>
          Inr (respond b [Reply ''Invalid bill amount. Please enter a valid number.'' NoMarkup]
                 WAITING_FOR_BILL)
      | Some total_bill \<Rightarrow>
          (let num_participants = length (current_meal_participants b)
           in if num_participants = 0 then Inl ZeroDivisionError
              else
                (let individual_share = round2 (fdiv total_bill num_participants);
                     b' = b\<lparr>current_meal_participants :=
                              fold (\<lambda>participant d. dict_set participant individual_share d)
                                (dict_keys (current_meal_participants b))
                                (current_meal_participants b)\<rparr>;
                     msg = result_message (current_meal_participants b') total_bill;
                     (ops, lg) = sync_to_google_sheets env b' total_bill individual_share
                 in Inr \<lparr>self = b', replies = [Reply msg NoMarkup], next_state = END,
                         sheet_ops = ops, logged = lg\<rparr>)))"

section \<open>The conversation handler\<close>

text \<open>
  An update is a command (its name, without the slash) or a text message that is not
  a command. \<open>handle\<close> is the table of \<open>setup_bot\<close> as \<open>ConversationHandler\<close> reads
  it: a conversation that has not begun (\<open>END\<close>) only looks at the entry points; one
  that has begun looks at the handlers of its state and then at the fallbacks. \<open>None\<close>
  means that no handler takes the update.
\<close>

datatype update = Command string | Message string

definition fallbacks :: "meal_cost_bot \<Rightarrow> string \<Rightarrow> (exn + outcome) option" where
  "fallbacks b c = (if c = ''cancel'' then Some (Inr (cancel b)) else None)"

definition handle ::
  "sheets_env \<Rightarrow> datetime \<Rightarrow> meal_cost_bot \<Rightarrow> state \<Rightarrow> update \<Rightarrow> (exn + outcome) option" where
  "handle env now b st u =
     (case st of
        END \<Rightarrow>
          (case u of
             Command c \<Rightarrow>
               if c = ''start'' then Some (Inr (start b))
               else if c = ''start_meal'' then Some (Inr (start_meal now b))
               else None
           | Message t \<Rightarrow> None)
      | WAITING_FOR_PURCHASER_INFO \<Rightarrow>
          (case u of
             Message t \<Rightarrow> Some (Inr (collect_purchaser_name b t))
           | Command c \<Rightarrow> fallbacks b c)
      | WAITING_FOR_PARTICIPANTS \<Rightarrow>
          (case u of
             Message t \<Rightarrow> Some (Inr (add_participant b t))
           | Command c \<Rightarrow>
               if c = ''remove'' then Some (Inr (remove_participant b))
               else if c = ''list'' then Some (Inr (list_participants b))
               else if c = ''done'' then Some (Inr (finish_participants b))
               else fallbacks b c)
      | REMOVING_PARTICIPANT \<Rightarrow>
          (case u of
             Message t \<Rightarrow> Some (Inr (confirm_participant_removal b t))
           | Command c \<Rightarrow> fallbacks b c)
      | WAITING_FOR_BILL \<Rightarrow>
          (case u of
             Message t \<Rightarrow> Some (process_bill env b t)
           | Command c \<Rightarrow> fallbacks b c))"

text \<open>
  The running application: the one bot object, whose variables every conversation
  shares, the state of each conversation (the handler keeps one per chat and user,
  here a number; \<open>END\<close> when there is none), and the exceptions that left a handler.
  An event is an update of one conversation, with the time and the behaviour of the
  spreadsheet service at that moment. A handler that raises leaves the state of its
  conversation as it was.
\<close>

record app =
  the_bot :: meal_cost_bot
  conversations :: "nat \<Rightarrow> state"
  errors :: "exn list"

record event =
  ev_peer :: nat
  ev_update :: update
  ev_now :: datetime
  ev_sheets :: sheets_env

definition init_app :: "datetime \<Rightarrow> app" where
  "init_app now = \<lparr>the_bot = init_bot now, conversations = (\<lambda>p. END), errors = []\<rparr>"

definition process_update :: "app \<Rightarrow> event \<Rightarrow> app" where
  "process_update a ev =
     (case handle (ev_sheets ev) (ev_now ev) (the_bot a) (conversations a (ev_peer ev))
             (ev_update ev) of
        None \<Rightarrow> a
      | Some (Inl e) \<Rightarrow> a\<lparr>errors := errors a @ [e]\<rparr>
      | Some (Inr out) \<Rightarrow>
          a\<lparr>the_bot := self out,
            conversations := (conversations a)(ev_peer ev := next_state out)\<rparr>)"

definition run :: "app \<Rightarrow> event list \<Rightarrow> app" where
  "run a evs = foldl process_update a evs"

text \<open>A service on which every call succeeds, and a date, for the examples.\<close>

definition sheets_ok :: sheets_env where
  "sheets_ok = \<lparr>open_by_key = None, worksheet = None, add_worksheet = None,
                append_row = (\<lambda>row. None)\<rparr>"

definition a_day :: datetime where
  "a_day = \<lparr>dt_year = 2024, dt_month = 3, dt_day = 9\<rparr>"

definition ev :: "nat \<Rightarrow> update \<Rightarrow> event" where
  "ev p u = \<lparr>ev_peer = p, ev_update = u, ev_now = a_day, ev_sheets = sheets_ok\<rparr>"

section \<open>Properties and examples\<close>

text \<open>No two participant names are equal up to letter case.\<close>

definition ci_unique :: "meal_cost_bot \<Rightarrow> bool" where
  "ci_unique b = distinct (map lower (dict_keys (current_meal_participants b)))"

definition is_finite_nonneg :: "pyfloat \<Rightarrow> bool" where
  "is_finite_nonneg x =
     (case x of Finite q \<Rightarrow> 0 \<le> q | NegZero \<Rightarrow> True | PosInf \<Rightarrow> False | NegInf \<Rightarrow> False
      | NaN \<Rightarrow> False)"

text \<open>A text message that \<open>float()\<close> rejects.\<close>

definition invalid_bill :: "update \<Rightarrow> bool" where
  "invalid_bill u = (case u of Message t \<Rightarrow> float_of_str (strip t) = None | Command c \<Rightarrow> False)"

text \<open>The bot after purchaser "Sam" and participant "Alice" were entered.\<close>

definition bot_alice :: meal_cost_bot where
  "bot_alice =
     \<lparr>current_meal_participants = [(''Alice'', Finite 0)],
      current_meal_total_bill = Finite 0,
      current_meal_date = a_day,
      current_meal_purchaser = [(''name'', ''Sam'')]\<rparr>"

text \<open>A bot with two participants.\<close>

definition bot_two :: meal_cost_bot where
  "bot_two =
     \<lparr>current_meal_participants = [(''Alice'', Finite 0), (''Bob'', Finite 0)],
      current_meal_total_bill = Finite 0,
      current_meal_date = a_day,
      current_meal_purchaser = [(''name'', ''Sam'')]\<rparr>"

text \<open>A bot with three participants.\<close>

definition bot_three :: meal_cost_bot where
  "bot_three =
     \<lparr>current_meal_participants = [(''Alice'', Finite 0), (''Bob'', Finite 0), (''Cy'', Finite 0)],
      current_meal_total_bill = Finite 0,
      current_meal_date = a_day,
      current_meal_purchaser = [(''name'', ''Sam'')]\<rparr>"


text \<open>A service that has no worksheet yet and refuses every row.\<close>

definition sheets_quota :: sheets_env where
  "sheets_quota = \<lparr>open_by_key = None, worksheet = Some WorksheetNotFound, add_worksheet = None,
                   append_row = (\<lambda>row. Some (APIError ''quota exceeded''))\<rparr>"

text \<open>
  The guard of the division, for the conversation \<open>p\<close>: no handler has raised, and
  if \<open>p\<close> awaits the bill then there is a participant.
\<close>

definition bill_guard :: "nat \<Rightarrow> app \<Rightarrow> bool" where
  "bill_guard p a =
     (errors a = []
      \<and> (conversations a p \<noteq> WAITING_FOR_BILL \<or> current_meal_participants (the_bot a) \<noteq> []))"

text \<open>Two conversations that interleave, and a single one that reaches the bill.\<close>

definition two_peers :: "event list" where
  "two_peers =
     [ev 1 (Command ''start_meal''), ev 1 (Message ''Sam''), ev 1 (Message ''Alice''),
      ev 1 (Command ''done''), ev 2 (Command ''start_meal''), ev 1 (Message ''100'')]"

definition one_peer :: "event list" where
  "one_peer =
     [ev 1 (Command ''start_meal''), ev 1 (Message ''Sam''), ev 1 (Message ''Alice''),
      ev 1 (Command ''done'')]"

section \<open>Facts about dictionaries\<close>

lemma dict_set_absent: "k \<notin> set (dict_keys d) \<Longrightarrow> dict_set k v d = d @ [(k, v)]"
  by (induction d) (auto simp: dict_keys_def)

lemma dict_keys_dict_set_present:
  "k \<in> set (dict_keys d) \<Longrightarrow> dict_keys (dict_set k v d) = dict_keys d"
proof (induction d)
  case Nil
  then show ?case by (simp add: dict_keys_def)
next
  case (Cons a d)
  obtain k' x where a: "a = (k', x)" by (cases a)
  show ?case
  proof (cases "k' = k")
    case True
    with a show ?thesis by (simp add: dict_keys_def)
  next
    case False
    with Cons.prems a have "k \<in> set (dict_keys d)" by (simp add: dict_keys_def)
    then have "dict_keys (dict_set k v d) = dict_keys d" by (rule Cons.IH)
    with False a show ?thesis by (simp add: dict_keys_def)
  qed
qed

lemma dict_keys_dict_set:
  "dict_keys (dict_set k v d) = (if k \<in> set (dict_keys d) then dict_keys d else dict_keys d @ [k])"
proof (cases "k \<in> set (dict_keys d)")
  case True
  then show ?thesis by (simp add: dict_keys_dict_set_present)
next
  case False
  then show ?thesis by (simp add: dict_set_absent) (simp add: dict_keys_def)
qed

lemma dict_set_present:
  "distinct (dict_keys d) \<Longrightarrow> k \<in> set (dict_keys d) \<Longrightarrow>
   dict_set k v d = map (\<lambda>(k', x). (k', if k' = k then v else x)) d"
proof (induction d)
  case Nil
  then show ?case by (simp add: dict_keys_def)
next
  case (Cons a d)
  obtain k' x where a: "a = (k', x)" by (cases a)
  show ?case
  proof (cases "k' = k")
    case True
    with Cons.prems a have "k \<notin> fst ` set d" by (simp add: dict_keys_def)
    then have "map (\<lambda>(k', x). (k', if k' = k then v else x)) d = d"
      by (induction d) (auto)
    with True a show ?thesis by simp
  next
    case False
    with Cons a show ?thesis by (simp add: dict_keys_def)
  qed
qed

lemma fold_dict_set:
  "distinct (dict_keys d) \<Longrightarrow> set ks \<subseteq> set (dict_keys d) \<Longrightarrow>
   fold (\<lambda>p. dict_set p v) ks d = map (\<lambda>(k', x). (k', if k' \<in> set ks then v else x)) d"
proof (induction ks arbitrary: d)
  case Nil
  then show ?case by (simp add: case_prod_unfold)
next
  case (Cons k ks)
  let ?d = "dict_set k v d"
  let ?f = "\<lambda>(k', x). (k', if k' \<in> set ks then v else x)"
  let ?g = "\<lambda>(k', x). (k', if k' = k then v else x)"
  have keys: "dict_keys ?d = dict_keys d" using Cons.prems by (simp add: dict_keys_dict_set)
  have A: "fold (\<lambda>p. dict_set p v) ks ?d = map ?f ?d"
    using Cons.prems keys by (intro Cons.IH) auto
  have B: "?d = map ?g d"
    using Cons.prems by (intro dict_set_present) auto
  have "fold (\<lambda>p. dict_set p v) (k # ks) d = fold (\<lambda>p. dict_set p v) ks ?d" by simp
  also have "\<dots> = map ?f ?d" by (rule A)
  also have "\<dots> = map ?f (map ?g d)" by (simp only: B [symmetric])
  also have "\<dots> = map (\<lambda>(k', x). (k', if k' \<in> set (k # ks) then v else x)) d"
    by (auto simp: case_prod_unfold)
  finally show ?case .
qed

lemma assign_all:
  "distinct (dict_keys d) \<Longrightarrow>
   fold (\<lambda>p. dict_set p v) (dict_keys d) d = map (\<lambda>k. (k, v)) (dict_keys d)"
  by (simp add: fold_dict_set) (simp add: dict_keys_def case_prod_unfold)

lemma dict_keys_fold_dict_set:
  "set ks \<subseteq> set (dict_keys d) \<Longrightarrow> dict_keys (fold (\<lambda>p. dict_set p v) ks d) = dict_keys d"
  by (induction ks arbitrary: d) (auto simp: dict_keys_dict_set)

lemma dict_keys_dict_del: "dict_keys (dict_del k d) = removeAll k (dict_keys d)"
  by (induction d) (auto simp: dict_keys_def dict_del_def)

lemma dict_get_dict_del: "k' \<noteq> k \<Longrightarrow> dict_get (dict_del k d) k' = dict_get d k'"
  by (induction d) (auto simp: dict_get_def dict_del_def)


lemma dict_get_dict_del_same: "dict_get (dict_del k d) k = None"
  by (induction d) (auto simp: dict_get_def dict_del_def)

lemma length_dict_del:
  "distinct (dict_keys d) \<Longrightarrow> k \<in> set (dict_keys d) \<Longrightarrow> Suc (length (dict_del k d)) = length d"
proof (induction d)
  case Nil
  then show ?case by (simp add: dict_keys_def)
next
  case (Cons a d)
  obtain k' x where a: "a = (k', x)" by (cases a)
  show ?case
  proof (cases "k' = k")
    case True
    with Cons.prems a have "k \<notin> fst ` set d" by (simp add: dict_keys_def)
    then have "dict_del k d = d"
      by (induction d) (auto simp: dict_del_def)
    with True a show ?thesis by (simp add: dict_del_def)
  next
    case False
    with Cons a show ?thesis by (simp add: dict_keys_def dict_del_def)
  qed
qed

lemma dict_del_appended:
  "k \<notin> set (dict_keys d) \<Longrightarrow> dict_del k (d @ [(k, v)]) = d"
proof (induction d)
  case Nil
  then show ?case by (simp add: dict_del_def)
next
  case (Cons a d)
  obtain k' x where a: "a = (k', x)" by (cases a)
  from Cons.prems a have "k' \<noteq> k" and "k \<notin> set (dict_keys d)" by (auto simp: dict_keys_def)
  with Cons.IH a show ?case by (simp add: dict_del_def)
qed

lemma lower_key_absent:
  "lower k \<notin> set (map lower (dict_keys d)) \<Longrightarrow> k \<notin> set (dict_keys d)"
  by auto

lemma map_of_const_keys: "p \<in> set ks \<Longrightarrow> map_of (map (\<lambda>k. (k, v)) ks) p = Some v"
  by (induction ks) auto

lemma process_bill_accepted:
  assumes "float_of_str (strip txt) = Some total_bill"
    and "current_meal_participants b \<noteq> []"
  shows "process_bill env b txt =
     (let individual_share = round2 (fdiv total_bill (length (current_meal_participants b)));
          b' = b\<lparr>current_meal_participants :=
                   fold (\<lambda>participant d. dict_set participant individual_share d)
                     (dict_keys (current_meal_participants b)) (current_meal_participants b)\<rparr>
      in Inr \<lparr>self = b',
              replies = [Reply (result_message (current_meal_participants b') total_bill) NoMarkup],
              next_state = END,
              sheet_ops = fst (sync_to_google_sheets env b' total_bill individual_share),
              logged = snd (sync_to_google_sheets env b' total_bill individual_share)\<rparr>)"
  using assms by (simp add: process_bill_def Let_def case_prod_unfold)

text \<open>Unfolding rules and values for evaluating the examples.\<close>

lemmas num_eval = str_of_nat.simps str_of_int.simps zfill_def digit_char_def Let_def

lemmas sync_eval = sync_to_google_sheets_def sync_body_def header_row_def result_message_def
  dict_keys_def dict_get_def join_def strftime_ymd_def a_day_def

lemma share_of_one:
  "round2 (fdiv (Finite 100) (Suc 0)) = Finite 100"
  "round2 (fdiv (Finite (- 5)) (Suc 0)) = Finite (- 5)"
  "round2 (fdiv (Finite (25 / 2)) (Suc 0)) = Finite (25 / 2)"
  "round2 (fdiv NaN (Suc 0)) = NaN"
  by code_simp+

lemma fmt2_values:
  "fmt2 (Finite 100) = ''100.00''"
  "fmt2 (Finite (- 5)) = ''-5.00''"
  "fmt2 (Finite (25 / 2)) = ''12.50''"
  "fmt2 NaN = ''nan''"
  by code_simp+

section \<open>Facts about runs\<close>

lemma run_Cons: "run a (e # evs) = run (process_update a e) evs"
  by (simp add: run_def)

lemma run_Nil: "run a [] = a"
  by (simp add: run_def)

lemmas handler_defs = start_def start_meal_def collect_purchaser_name_def add_participant_def
  remove_participant_def confirm_participant_removal_def list_participants_def
  finish_participants_def cancel_def respond_def

section \<open>The claims\<close>

text \<open>
  C4. The \<open>done\<close> command in the participant-collection state runs
  \<open>finish_participants\<close>, which never changes the bot's variables. With no participant
  it sends the rejection message and returns the collection state; with at least one
  participant it sends the participant list and returns the bill-awaiting state.
\<close>

theorem finish_participants_gate:
  "handle env now b WAITING_FOR_PARTICIPANTS (Command ''done'') = Some (Inr (finish_participants b))
   \<and> self (finish_participants b) = b
   \<and> (current_meal_participants b = [] \<longrightarrow>
        replies (finish_participants b)
          = [Reply ''No participants added. Please add participants first.'' NoMarkup]
        \<and> next_state (finish_participants b) = WAITING_FOR_PARTICIPANTS)
   \<and> (current_meal_participants b \<noteq> [] \<longrightarrow>
        replies (finish_participants b)
          = [Reply (''Participants for this meal: ''
                    @ join '', '' (dict_keys (current_meal_participants b)) @ ''\<newline>''
                    @ ''Now, please send the total bill amount.'') NoMarkup]
        \<and> next_state (finish_participants b) = WAITING_FOR_BILL)"
  by (simp add: handle_def finish_participants_def respond_def)

theorem finish_participants_gate_witness:
  "current_meal_participants (init_bot a_day) = []
   \<and> next_state (finish_participants (init_bot a_day)) = WAITING_FOR_PARTICIPANTS
   \<and> current_meal_participants bot_alice \<noteq> []
   \<and> next_state (finish_participants bot_alice) = WAITING_FOR_BILL
   \<and> replies (finish_participants bot_alice)
       = [Reply ''Participants for this meal: Alice\<newline>Now, please send the total bill amount.'' NoMarkup]"
proof -
  have e: "current_meal_participants (init_bot a_day) = []" by (simp add: init_bot_def)
  have n: "current_meal_participants bot_alice \<noteq> []" by (simp add: bot_alice_def)
  have k: "join '', '' (dict_keys (current_meal_participants bot_alice)) = ''Alice''"
    by (simp add: bot_alice_def join_def dict_keys_def)
  show ?thesis
    using e n k finish_participants_gate [of sheets_ok a_day "init_bot a_day"]
      finish_participants_gate [of sheets_ok a_day bot_alice]
    by simp
qed

text \<open>
  An update that \<open>float()\<close> rejects, sent to a conversation that awaits the bill,
  changes nothing in the application.
\<close>

lemma process_update_invalid_bill:
  assumes "conversations a (ev_peer e) = WAITING_FOR_BILL" and "invalid_bill (ev_update e)"
  shows "process_update a e = a"
proof -
  from assms(2) obtain t where t: "ev_update e = Message t" "float_of_str (strip t) = None"
    by (cases "ev_update e") (auto simp: invalid_bill_def)
  have "(conversations a)(ev_peer e := WAITING_FOR_BILL) = conversations a"
    using assms(1) by (metis fun_upd_triv)
  then show ?thesis
    using assms(1) t by (simp add: process_update_def handle_def process_bill_def respond_def)
qed

lemma run_invalid_bills:
  "conversations a p = WAITING_FOR_BILL \<Longrightarrow>
   \<forall>e \<in> set evs. ev_peer e = p \<and> invalid_bill (ev_update e) \<Longrightarrow> run a evs = a"
  unfolding run_def
  by (induction evs) (simp_all add: process_update_invalid_bill)

text \<open>
  C5. In \<open>process_bill\<close>, a text that does not parse as a number yields the
  invalid-amount message and the bill-awaiting state, and leaves every variable of the
  bot as it was. Any number of such messages in a row leaves the application where it
  was, so the retries are unlimited.
\<close>

theorem process_bill_invalid_retry:
  "(float_of_str (strip txt) = None \<longrightarrow>
      process_bill env b txt
        = Inr (respond b [Reply ''Invalid bill amount. Please enter a valid number.'' NoMarkup]
                 WAITING_FOR_BILL))
   \<and> (conversations a p = WAITING_FOR_BILL
        \<and> (\<forall>e \<in> set evs. ev_peer e = p \<and> invalid_bill (ev_update e)) \<longrightarrow>
      run a evs = a)"
proof (intro conjI impI)
  assume "float_of_str (strip txt) = None"
  then show "process_bill env b txt
      = Inr (respond b [Reply ''Invalid bill amount. Please enter a valid number.'' NoMarkup]
               WAITING_FOR_BILL)"
    by (simp add: process_bill_def)
next
  assume "conversations a p = WAITING_FOR_BILL
      \<and> (\<forall>e \<in> set evs. ev_peer e = p \<and> invalid_bill (ev_update e))"
  then show "run a evs = a"
    using run_invalid_bills [of a p evs] by blast
qed

theorem process_bill_invalid_retry_witness:
  "float_of_str (strip ''ten'') = None
   \<and> process_bill sheets_ok bot_alice ''ten''
       = Inr (respond bot_alice
                [Reply ''Invalid bill amount. Please enter a valid number.'' NoMarkup]
                WAITING_FOR_BILL)
   \<and> run ((init_app a_day)\<lparr>conversations := (\<lambda>p. WAITING_FOR_BILL)\<rparr>)
         [ev 7 (Message ''ten''), ev 7 (Message ''1,5'')]
       = (init_app a_day)\<lparr>conversations := (\<lambda>p. WAITING_FOR_BILL)\<rparr>"
proof -
  have p1: "float_of_str (strip ''ten'') = None" by code_simp
  have p2: "float_of_str (strip ''1,5'') = None" by code_simp
  have h: "conversations ((init_app a_day)\<lparr>conversations := (\<lambda>p. WAITING_FOR_BILL)\<rparr>) 7
             = WAITING_FOR_BILL
           \<and> (\<forall>e \<in> set [ev 7 (Message ''ten''), ev 7 (Message ''1,5'')].
                 ev_peer e = 7 \<and> invalid_bill (ev_update e))"
    using p1 p2 by (simp add: ev_def invalid_bill_def)
  show ?thesis
    using p1 h
      process_bill_invalid_retry [of "''ten''" sheets_ok bot_alice
        "(init_app a_day)\<lparr>conversations := (\<lambda>p. WAITING_FOR_BILL)\<rparr>" 7
        "[ev 7 (Message ''ten''), ev 7 (Message ''1,5'')]"]
    by blast
qed


text \<open>
  C10. \<open>confirm_participant_removal\<close> always returns the collection state and never
  touches the purchaser record, the total bill or the date. When the trimmed text is a
  key of the participant dictionary, that key and no other is deleted: the remaining
  keys keep their order, every other name keeps its share, and the dictionary is one
  entry shorter. When it is not a key, the bot is unchanged.
\<close>

theorem confirm_participant_removal_frame:
  "next_state (confirm_participant_removal b txt) = WAITING_FOR_PARTICIPANTS
   \<and> current_meal_purchaser (self (confirm_participant_removal b txt)) = current_meal_purchaser b
   \<and> current_meal_total_bill (self (confirm_participant_removal b txt)) = current_meal_total_bill b
   \<and> current_meal_date (self (confirm_participant_removal b txt)) = current_meal_date b
   \<and> (dict_contains (strip txt) (current_meal_participants b) \<longrightarrow>
        dict_keys (current_meal_participants (self (confirm_participant_removal b txt)))
          = removeAll (strip txt) (dict_keys (current_meal_participants b))
        \<and> dict_get (current_meal_participants (self (confirm_participant_removal b txt))) (strip txt)
            = None
        \<and> (\<forall>k. k \<noteq> strip txt \<longrightarrow>
              dict_get (current_meal_participants (self (confirm_participant_removal b txt))) k
                = dict_get (current_meal_participants b) k)
        \<and> (distinct (dict_keys (current_meal_participants b)) \<longrightarrow>
              Suc (length (current_meal_participants (self (confirm_participant_removal b txt))))
                = length (current_meal_participants b)))
   \<and> (\<not> dict_contains (strip txt) (current_meal_participants b) \<longrightarrow>
        self (confirm_participant_removal b txt) = b)"
  by (simp add: confirm_participant_removal_def respond_def Let_def dict_keys_dict_del
      dict_get_dict_del dict_get_dict_del_same length_dict_del dict_contains_def)

theorem confirm_participant_removal_frame_witness:
  "dict_contains (strip '' Bob '') (current_meal_participants bot_three)
   \<and> distinct (dict_keys (current_meal_participants bot_three))
   \<and> confirm_participant_removal bot_three '' Bob ''
       = respond (bot_three\<lparr>current_meal_participants := [(''Alice'', Finite 0), (''Cy'', Finite 0)]\<rparr>)
           [Reply ''Removed Bob from the meal participants.'' ReplyKeyboardRemove]
           WAITING_FOR_PARTICIPANTS
   \<and> \<not> dict_contains (strip ''bob'') (current_meal_participants bot_three)
   \<and> self (confirm_participant_removal bot_three ''bob'') = bot_three"
proof -
  have s1: "strip '' Bob '' = ''Bob''" by code_simp
  have s2: "strip ''bob'' = ''bob''" by code_simp
  have h1: "dict_contains (strip '' Bob '') (current_meal_participants bot_three)"
    by (simp add: s1 bot_three_def dict_contains_def dict_keys_def)
  have h2: "\<not> dict_contains (strip ''bob'') (current_meal_participants bot_three)"
    by (simp add: s2 bot_three_def dict_contains_def dict_keys_def)
  have h3: "distinct (dict_keys (current_meal_participants bot_three))"
    by (simp add: bot_three_def dict_keys_def)
  have r: "confirm_participant_removal bot_three '' Bob ''
       = respond (bot_three\<lparr>current_meal_participants := [(''Alice'', Finite 0), (''Cy'', Finite 0)]\<rparr>)
           [Reply ''Removed Bob from the meal participants.'' ReplyKeyboardRemove]
           WAITING_FOR_PARTICIPANTS"
    by (simp add: confirm_participant_removal_def s1 bot_three_def dict_contains_def
        dict_keys_def dict_del_def)
  show ?thesis
    using h1 h2 h3 r confirm_participant_removal_frame [of bot_three "''bob''"]
      confirm_participant_removal_frame [of bot_three "'' Bob ''"]
    by blast
qed


text \<open>
  C3. Insertion compares names without regard to letter case, removal compares them
  exactly. Take any bot in which no participant name equals "alice" up to case and add
  "Alice". Then adding "alice" is rejected as a duplicate; submitting "alice" for
  removal reports not-found and leaves the bot as it is; submitting "Alice" deletes the
  entry, which gives back the bot from before the insertion. Both removal attempts
  return the collection state.
\<close>

theorem case_asymmetry:
  assumes "lower ''Alice'' \<notin> set (map lower (dict_keys (current_meal_participants b)))"
  shows "dict_keys (current_meal_participants (self (add_participant b ''Alice'')))
           = dict_keys (current_meal_participants b) @ [''Alice'']
   \<and> add_participant (self (add_participant b ''Alice'')) ''alice''
       = respond (self (add_participant b ''Alice''))
           [Reply ''alice is already in the participant list.'' NoMarkup]
           WAITING_FOR_PARTICIPANTS
   \<and> confirm_participant_removal (self (add_participant b ''Alice'')) ''alice''
       = respond (self (add_participant b ''Alice''))
           [Reply ''Participant alice not found.'' ReplyKeyboardRemove]
           WAITING_FOR_PARTICIPANTS
   \<and> confirm_participant_removal (self (add_participant b ''Alice'')) ''Alice''
       = respond b
           [Reply ''Removed Alice from the meal participants.'' ReplyKeyboardRemove]
           WAITING_FOR_PARTICIPANTS"
proof -
  let ?ps = "current_meal_participants b"
  let ?b1 = "b\<lparr>current_meal_participants := ?ps @ [(''Alice'', Finite 0)]\<rparr>"
  have s1: "strip ''Alice'' = ''Alice''" by code_simp
  have s2: "strip ''alice'' = ''alice''" by code_simp
  have l1: "lower ''Alice'' = ''alice''" by code_simp
  have l2: "lower ''alice'' = ''alice''" by code_simp
  have nA: "''Alice'' \<notin> set (dict_keys ?ps)" using assms by (rule lower_key_absent)
  have "lower ''alice'' = lower ''Alice''" by (simp only: l1 l2)
  with assms have "lower ''alice'' \<notin> set (map lower (dict_keys ?ps))" by simp
  then have na: "''alice'' \<notin> set (dict_keys ?ps)" by (rule lower_key_absent)
  have b1: "self (add_participant b ''Alice'') = ?b1"
  proof -
    have ds: "dict_set ''Alice'' (Finite 0) ?ps = ?ps @ [(''Alice'', Finite 0)]"
      using nA by (rule dict_set_absent)
    have "add_participant b ''Alice''
            = respond ?b1 [Reply (''Added '' @ ''Alice'' @ '' to the meal.'') NoMarkup]
                WAITING_FOR_PARTICIPANTS"
      unfolding add_participant_def s1 Let_def ds using assms by (simp only: if_False)
    then show ?thesis by (simp add: respond_def)
  qed
  have keys1: "dict_keys (current_meal_participants ?b1) = dict_keys ?ps @ [''Alice'']"
    by (simp add: dict_keys_def)
  have c2: "add_participant ?b1 ''alice''
       = respond ?b1 [Reply ''alice is already in the participant list.'' NoMarkup]
           WAITING_FOR_PARTICIPANTS"
    unfolding add_participant_def s2 Let_def keys1 l2 by (simp add: l1)
  have "\<not> dict_contains ''alice'' (current_meal_participants ?b1)"
    unfolding dict_contains_def keys1 using na by simp
  then have c3: "confirm_participant_removal ?b1 ''alice''
       = respond ?b1 [Reply ''Participant alice not found.'' ReplyKeyboardRemove]
           WAITING_FOR_PARTICIPANTS"
    unfolding confirm_participant_removal_def s2 Let_def by simp
  have "dict_contains ''Alice'' (current_meal_participants ?b1)"
    unfolding dict_contains_def keys1 by simp
  moreover have "?b1\<lparr>current_meal_participants := dict_del ''Alice'' (current_meal_participants ?b1)\<rparr> = b"
    using nA by (simp add: dict_del_appended)
  ultimately have c4: "confirm_participant_removal ?b1 ''Alice''
       = respond b [Reply ''Removed Alice from the meal participants.'' ReplyKeyboardRemove]
           WAITING_FOR_PARTICIPANTS"
    unfolding confirm_participant_removal_def s1 Let_def by simp
  show ?thesis
    unfolding b1 using keys1 c2 c3 c4 by (intro conjI)
qed


theorem case_asymmetry_witness:
  "lower ''Alice'' \<notin> set (map lower (dict_keys (current_meal_participants (init_bot a_day))))
   \<and> confirm_participant_removal (self (add_participant (init_bot a_day) ''Alice'')) ''alice''
       = respond (self (add_participant (init_bot a_day) ''Alice''))
           [Reply ''Participant alice not found.'' ReplyKeyboardRemove]
           WAITING_FOR_PARTICIPANTS
   \<and> confirm_participant_removal (self (add_participant (init_bot a_day) ''Alice'')) ''Alice''
       = respond (init_bot a_day)
           [Reply ''Removed Alice from the meal participants.'' ReplyKeyboardRemove]
           WAITING_FOR_PARTICIPANTS
   \<and> dict_keys (current_meal_participants (self (add_participant (init_bot a_day) ''Alice'')))
       = [''Alice'']"
proof -
  have e: "dict_keys (current_meal_participants (init_bot a_day)) = []"
    by (simp add: init_bot_def dict_keys_def)
  have h: "lower ''Alice'' \<notin> set (map lower (dict_keys (current_meal_participants (init_bot a_day))))"
    by (simp only: e list.map list.set empty_iff not_False_eq_True)
  show ?thesis
    using h case_asymmetry [OF h] by (simp only: e append_Nil simp_thms)
qed


text \<open>
  C1. Take a bot with at least one participant and a bill text that \<open>float()\<close> reads
  as \<open>total_bill\<close>. Then \<open>process_bill\<close> returns normally and ends the conversation,
  and afterwards the participant dictionary has the same names in the same order, each
  with the one share \<open>round(total_bill / n, 2)\<close>, where \<open>n\<close> is the number of
  participants: one division in binary64, rounded once, shared by all. For the bill
  "10.05" and two participants the share is the float that prints as 5.03.
\<close>

theorem process_bill_split:
  assumes "float_of_str (strip txt) = Some total_bill"
    and "current_meal_participants b \<noteq> []"
    and "distinct (dict_keys (current_meal_participants b))"
  shows "\<exists>out. process_bill env b txt = Inr out
     \<and> next_state out = END
     \<and> current_meal_participants (self out)
         = map (\<lambda>p. (p, round2 (fdiv total_bill (length (current_meal_participants b)))))
             (dict_keys (current_meal_participants b))
     \<and> (\<forall>p \<in> set (dict_keys (current_meal_participants b)).
           dict_get (current_meal_participants (self out)) p
             = Some (round2 (fdiv total_bill (length (current_meal_participants b)))))"
  using assms(3)
  by (simp add: process_bill_accepted [OF assms(1,2)] Let_def assign_all dict_get_def
      map_of_const_keys)


theorem process_bill_split_witness:
  "float_of_str (strip ''10.05'') = Some (Finite (2828823515942093 / 281474976710656))
   \<and> current_meal_participants bot_two \<noteq> []
   \<and> distinct (dict_keys (current_meal_participants bot_two))
   \<and> (\<exists>out. process_bill sheets_ok bot_two ''10.05'' = Inr out
         \<and> next_state out = END
         \<and> current_meal_participants (self out)
             = [(''Alice'', Finite (5663276531418399 / 1125899906842624)),
                (''Bob'', Finite (5663276531418399 / 1125899906842624))])
   \<and> fmt2 (Finite (5663276531418399 / 1125899906842624)) = ''5.03''"
proof -
  have p: "float_of_str (strip ''10.05'') = Some (Finite (2828823515942093 / 281474976710656))"
    by code_simp
  have n: "current_meal_participants bot_two \<noteq> []" by (simp add: bot_two_def)
  have d: "distinct (dict_keys (current_meal_participants bot_two))"
    by (simp add: bot_two_def dict_keys_def)
  have k: "dict_keys (current_meal_participants bot_two) = [''Alice'', ''Bob'']"
    by (simp add: bot_two_def dict_keys_def)
  have l: "length (current_meal_participants bot_two) = 2" by (simp add: bot_two_def)
  have sh: "round2 (fdiv (Finite (2828823515942093 / 281474976710656)) 2)
              = Finite (5663276531418399 / 1125899906842624)"
    by code_simp
  have fm: "fmt2 (Finite (5663276531418399 / 1125899906842624)) = ''5.03''" by code_simp
  from process_bill_split [OF p n d, of sheets_ok]
  obtain out where "process_bill sheets_ok bot_two ''10.05'' = Inr out"
    and "next_state out = END"
    and "current_meal_participants (self out)
           = map (\<lambda>p. (p, round2 (fdiv (Finite (2828823515942093 / 281474976710656))
                                  (length (current_meal_participants bot_two)))))
               (dict_keys (current_meal_participants bot_two))"
    by blast
  then have "\<exists>out. process_bill sheets_ok bot_two ''10.05'' = Inr out
         \<and> next_state out = END
         \<and> current_meal_participants (self out)
             = [(''Alice'', Finite (5663276531418399 / 1125899906842624)),
                (''Bob'', Finite (5663276531418399 / 1125899906842624))]"
    by (simp add: k l sh)
  with p n d fm show ?thesis by blast
qed

text \<open>
  C6. Take a bill that is accepted (the text parses and there is a participant). Whatever
  the spreadsheet service does, \<open>process_bill\<close> returns normally: its bot, its reply
  (the itemised split) and its next state (\<open>END\<close>) are those of a run on a service
  where every call succeeds. An exception raised in the sync is not passed on; it ends up
  in an error record of the log.
\<close>

theorem sync_failure_isolated:
  assumes "float_of_str (strip txt) = Some total_bill"
    and "current_meal_participants b \<noteq> []"
  shows "\<exists>out out_ok. process_bill env b txt = Inr out
     \<and> process_bill sheets_ok b txt = Inr out_ok
     \<and> self out = self out_ok \<and> replies out = replies out_ok
     \<and> next_state out = next_state out_ok
     \<and> next_state out = END
     \<and> replies out
         = [Reply (result_message (current_meal_participants (self out)) total_bill) NoMarkup]
     \<and> (\<forall>e. fst (sync_body env (self out) total_bill
                   (round2 (fdiv total_bill (length (current_meal_participants b))))) = Some e
              \<longrightarrow> logged out = [Error e])"
proof -
  let ?share = "round2 (fdiv total_bill (length (current_meal_participants b)))"
  let ?b' = "b\<lparr>current_meal_participants :=
                 fold (\<lambda>participant d. dict_set participant ?share d)
                   (dict_keys (current_meal_participants b)) (current_meal_participants b)\<rparr>"
  let ?out = "\<lambda>env. \<lparr>self = ?b',
      replies = [Reply (result_message (current_meal_participants ?b') total_bill) NoMarkup],
      next_state = END,
      sheet_ops = fst (sync_to_google_sheets env ?b' total_bill ?share),
      logged = snd (sync_to_google_sheets env ?b' total_bill ?share)\<rparr>"
  have run: "process_bill env b txt = Inr (?out env)" for env
    by (simp only: process_bill_accepted [OF assms] Let_def)
  have lg: "logged (?out env) = [Error e]"
    if "fst (sync_body env ?b' total_bill ?share) = Some e" for e
    using that by (cases "sync_body env ?b' total_bill ?share") (simp add: sync_to_google_sheets_def)
  have "process_bill env b txt = Inr (?out env) \<and> process_bill sheets_ok b txt = Inr (?out sheets_ok)
     \<and> self (?out env) = self (?out sheets_ok) \<and> replies (?out env) = replies (?out sheets_ok)
     \<and> next_state (?out env) = next_state (?out sheets_ok)
     \<and> next_state (?out env) = END
     \<and> replies (?out env)
         = [Reply (result_message (current_meal_participants (self (?out env))) total_bill) NoMarkup]
     \<and> (\<forall>e. fst (sync_body env (self (?out env)) total_bill ?share) = Some e
              \<longrightarrow> logged (?out env) = [Error e])"
    using run [of env] run [of sheets_ok] lg by simp
  then show ?thesis by blast
qed


theorem sync_failure_isolated_witness:
  "float_of_str (strip ''100'') = Some (Finite 100)
   \<and> current_meal_participants bot_alice \<noteq> []
   \<and> process_bill sheets_quota bot_alice ''100''
     = Inr \<lparr>self = bot_alice\<lparr>current_meal_participants := [(''Alice'', Finite 100)]\<rparr>,
            replies = [Reply ''Bill Split:\<newline>Alice: $100.00\<newline>\<newline>Total Bill: $100.00'' NoMarkup],
            next_state = END,
            sheet_ops = [AddWorksheet ''Meal Costs'' 1000 20],
            logged = [Error (APIError ''quota exceeded'')]\<rparr>"
proof -
  have p: "float_of_str (strip ''100'') = Some (Finite 100)" by code_simp
  have n: "current_meal_participants bot_alice \<noteq> []" by (simp add: bot_alice_def)
  from sync_failure_isolated [OF p n, of sheets_quota]
  obtain out where out: "process_bill sheets_quota bot_alice ''100'' = Inr out"
    and st: "next_state out = END"
    and rp: "replies out
         = [Reply (result_message (current_meal_participants (self out)) (Finite 100)) NoMarkup]"
    by blast
  have r: "process_bill sheets_quota bot_alice ''100''
     = Inr \<lparr>self = bot_alice\<lparr>current_meal_participants := [(''Alice'', Finite 100)]\<rparr>,
            replies = [Reply ''Bill Split:\<newline>Alice: $100.00\<newline>\<newline>Total Bill: $100.00'' NoMarkup],
            next_state = END,
            sheet_ops = [AddWorksheet ''Meal Costs'' 1000 20],
            logged = [Error (APIError ''quota exceeded'')]\<rparr>"
    by (subst process_bill_accepted [OF p n])
       (simp add: bot_alice_def sheets_quota_def sync_eval num_eval share_of_one fmt2_values)
  show ?thesis using p n r out st rp by simp
qed

text \<open>
  C7 as stated does not hold: the handler accepts "-5" and "nan". Both split, are written
  to the spreadsheet and end the conversation, with a total that is negative in the one
  case and not a number in the other.
\<close>

theorem total_bill_unchecked_counterexample:
  "process_bill sheets_ok bot_alice ''-5''
     = Inr \<lparr>self = bot_alice\<lparr>current_meal_participants := [(''Alice'', Finite (- 5))]\<rparr>,
            replies = [Reply ''Bill Split:\<newline>Alice: $-5.00\<newline>\<newline>Total Bill: $-5.00'' NoMarkup],
            next_state = END,
            sheet_ops = [AppendRow [Str ''2024-03-09'', Str ''Sam'', Num (Finite (- 5)),
                                    Str ''Alice'', Num (Finite (- 5))]],
            logged = [Info (Finite (- 5))]\<rparr>
   \<and> \<not> is_finite_nonneg (Finite (- 5))
   \<and> process_bill sheets_ok bot_alice ''nan''
     = Inr \<lparr>self = bot_alice\<lparr>current_meal_participants := [(''Alice'', NaN)]\<rparr>,
            replies = [Reply ''Bill Split:\<newline>Alice: $nan\<newline>\<newline>Total Bill: $nan'' NoMarkup],
            next_state = END,
            sheet_ops = [AppendRow [Str ''2024-03-09'', Str ''Sam'', Num NaN,
                                    Str ''Alice'', Num NaN]],
            logged = [Info NaN]\<rparr>
   \<and> \<not> is_finite_nonneg NaN"
proof -
  have p1: "float_of_str (strip ''-5'') = Some (Finite (- 5))" by code_simp
  have p2: "float_of_str (strip ''nan'') = Some NaN" by code_simp
  have n: "current_meal_participants bot_alice \<noteq> []" by (simp add: bot_alice_def)
  show ?thesis
    by (subst process_bill_accepted [OF p1 n], subst process_bill_accepted [OF p2 n])
       (simp add: bot_alice_def sheets_ok_def sync_eval num_eval share_of_one fmt2_values
          is_finite_nonneg_def)
qed

text \<open>
  C7, amended. For every bill text that the handler accepts (it parses as a float and
  there is a participant), the value used for the split, shown in the result message and
  written to the row of the spreadsheet is the float that the text parses to, as it is:
  the handler checks neither its sign nor that it is finite.
\<close>

theorem total_bill_is_parsed_value:
  assumes "float_of_str (strip txt) = Some total_bill"
    and "current_meal_participants b \<noteq> []"
  shows "\<exists>out. process_bill env b txt = Inr out
     \<and> next_state out = END
     \<and> replies out
         = [Reply (result_message (current_meal_participants (self out)) total_bill) NoMarkup]
     \<and> (\<forall>row. AppendRow row \<in> set (sheet_ops out) \<and> row \<noteq> header_row \<longrightarrow>
           row ! 2 = Num total_bill
           \<and> row ! 4 = Num (round2 (fdiv total_bill (length (current_meal_participants b)))))
     \<and> (logged out = [Info total_bill] \<or> (\<exists>e. logged out = [Error e]))"
proof -
  let ?share = "round2 (fdiv total_bill (length (current_meal_participants b)))"
  let ?b' = "b\<lparr>current_meal_participants :=
                 fold (\<lambda>participant d. dict_set participant ?share d)
                   (dict_keys (current_meal_participants b)) (current_meal_participants b)\<rparr>"
  let ?s = "sync_to_google_sheets env ?b' total_bill ?share"
  have rows: "row ! 2 = Num total_bill \<and> row ! 4 = Num ?share"
    if "AppendRow row \<in> set (fst ?s)" and "row \<noteq> header_row" for row
    using that
    by (auto simp: sync_to_google_sheets_def sync_body_def Let_def
        split: option.splits if_splits prod.splits)
  have lg: "snd ?s = [Info total_bill] \<or> (\<exists>e. snd ?s = [Error e])"
    by (cases "sync_body env ?b' total_bill ?share")
       (auto simp: sync_to_google_sheets_def split: option.splits)
  show ?thesis
    using rows lg by (simp add: process_bill_accepted [OF assms] Let_def)
qed

theorem total_bill_is_parsed_value_witness:
  "float_of_str (strip '' 12.5 '') = Some (Finite (25 / 2))
   \<and> current_meal_participants bot_alice \<noteq> []
   \<and> process_bill sheets_ok bot_alice '' 12.5 ''
     = Inr \<lparr>self = bot_alice\<lparr>current_meal_participants := [(''Alice'', Finite (25 / 2))]\<rparr>,
            replies = [Reply ''Bill Split:\<newline>Alice: $12.50\<newline>\<newline>Total Bill: $12.50'' NoMarkup],
            next_state = END,
            sheet_ops = [AppendRow [Str ''2024-03-09'', Str ''Sam'', Num (Finite (25 / 2)),
                                    Str ''Alice'', Num (Finite (25 / 2))]],
            logged = [Info (Finite (25 / 2))]\<rparr>"
proof -
  have p: "float_of_str (strip '' 12.5 '') = Some (Finite (25 / 2))" by code_simp
  have n: "current_meal_participants bot_alice \<noteq> []" by (simp add: bot_alice_def)
  from total_bill_is_parsed_value [OF p n, of sheets_ok]
  obtain out where out: "process_bill sheets_ok bot_alice '' 12.5 '' = Inr out"
    and st: "next_state out = END"
    by blast
  have r: "process_bill sheets_ok bot_alice '' 12.5 ''
     = Inr \<lparr>self = bot_alice\<lparr>current_meal_participants := [(''Alice'', Finite (25 / 2))]\<rparr>,
            replies = [Reply ''Bill Split:\<newline>Alice: $12.50\<newline>\<newline>Total Bill: $12.50'' NoMarkup],
            next_state = END,
            sheet_ops = [AppendRow [Str ''2024-03-09'', Str ''Sam'', Num (Finite (25 / 2)),
                                    Str ''Alice'', Num (Finite (25 / 2))]],
            logged = [Info (Finite (25 / 2))]\<rparr>"
    by (subst process_bill_accepted [OF p n])
       (simp add: bot_alice_def sheets_ok_def sync_eval num_eval share_of_one fmt2_values)
  show ?thesis using p n r out st by simp
qed


text \<open>
  C8 as stated does not hold. \<open>cancel\<close> sends the acknowledgement and returns
  \<open>END\<close>, but it leaves the variables of the bot as they are: after it the participant
  "Alice" and the purchaser "Sam" are still recorded. And a conversation that has not
  begun or has ended (\<open>END\<close>) has no handler for the command: nothing is sent.
\<close>

theorem cancel_keeps_data_counterexample:
  "self (cancel bot_alice) = bot_alice
   \<and> current_meal_participants bot_alice = [(''Alice'', Finite 0)]
   \<and> current_meal_purchaser bot_alice = [(''name'', ''Sam'')]
   \<and> handle sheets_ok a_day bot_alice END (Command ''cancel'') = None"
  by (simp add: cancel_def respond_def bot_alice_def handle_def)

text \<open>
  C8, amended. In each of the four states of a running conversation the \<open>cancel\<close>
  command runs \<open>cancel\<close>, which sends the acknowledgement, returns \<open>END\<close> and
  leaves the bot's variables untouched. The \<open>start_meal\<close> command that follows is
  taken as an entry point and resets them: no participant, total bill zero, the date of
  that moment, and a purchaser record with an empty name.
\<close>

theorem cancel_then_start_meal:
  "cancel b = respond b [Reply ''Meal tracking cancelled.'' ReplyKeyboardRemove] END
   \<and> (st \<noteq> END \<longrightarrow> handle env now b st (Command ''cancel'') = Some (Inr (cancel b)))
   \<and> handle env now (self (cancel b)) END (Command ''start_meal'')
       = Some (Inr (start_meal now (self (cancel b))))
   \<and> self (start_meal now (self (cancel b)))
       = \<lparr>current_meal_participants = [], current_meal_total_bill = Finite 0,
          current_meal_date = now, current_meal_purchaser = [(''name'', '''')]\<rparr>
   \<and> next_state (start_meal now (self (cancel b))) = WAITING_FOR_PURCHASER_INFO"
  by (cases st) (simp_all add: handle_def fallbacks_def cancel_def start_meal_def respond_def)

theorem cancel_then_start_meal_witness:
  "WAITING_FOR_PARTICIPANTS \<noteq> END
   \<and> handle sheets_ok a_day bot_alice WAITING_FOR_PARTICIPANTS (Command ''cancel'')
       = Some (Inr (cancel bot_alice))
   \<and> cancel bot_alice
       = respond bot_alice [Reply ''Meal tracking cancelled.'' ReplyKeyboardRemove] END
   \<and> self (start_meal a_day (self (cancel bot_alice)))
       = \<lparr>current_meal_participants = [], current_meal_total_bill = Finite 0,
          current_meal_date = a_day, current_meal_purchaser = [(''name'', '''')]\<rparr>"
proof -
  have ne: "WAITING_FOR_PARTICIPANTS \<noteq> END" by simp
  show ?thesis
    using ne cancel_then_start_meal [of bot_alice WAITING_FOR_PARTICIPANTS sheets_ok a_day]
    by blast
qed

text \<open>
  C9 as stated does not hold. The bot's variables are shared by all conversations.
  Conversation 1 enters a purchaser and a participant and sends \<open>done\<close>; conversation
  2 then sends \<open>start_meal\<close>, which clears the participants; the bill "100" of
  conversation 1 now divides by zero, and \<open>ZeroDivisionError\<close> leaves \<open>process_bill\<close>.
\<close>

theorem zero_division_counterexample:
  "errors (run (init_app a_day) two_peers) = [ZeroDivisionError]"
proof -
  have s1: "strip ''Sam'' = ''Sam''" by code_simp
  have s2: "strip ''Alice'' = ''Alice''" by code_simp
  have s3: "float_of_str (strip ''100'') = Some (Finite 100)" by code_simp
  show ?thesis
    by (simp add: two_peers_def run_Cons run_Nil process_update_def handle_def fallbacks_def
        ev_def init_app_def init_bot_def handler_defs process_bill_def s1 s2 s3 dict_keys_def)
qed


text \<open>
  A conversation that awaits the bill has a participant, and no handler has raised:
  \<open>bill_guard\<close> is kept by every update of that conversation.
\<close>

lemma process_bill_cases:
  "process_bill env b t = Inr (respond b [Reply ''Invalid bill amount. Please enter a valid number.'' NoMarkup] WAITING_FOR_BILL)
   \<or> (process_bill env b t = Inl ZeroDivisionError \<and> current_meal_participants b = [])
   \<or> (\<exists>out. process_bill env b t = Inr out \<and> next_state out = END
          \<and> dict_keys (current_meal_participants (self out)) = dict_keys (current_meal_participants b))"
proof (cases "float_of_str (strip t)")
  case None
  then show ?thesis by (simp add: process_bill_def)
next
  case (Some total_bill)
  show ?thesis
  proof (cases "current_meal_participants b = []")
    case True
    with Some show ?thesis by (simp add: process_bill_def)
  next
    case False
    then show ?thesis
      by (simp add: process_bill_accepted [OF Some False] Let_def dict_keys_fold_dict_set)
  qed
qed

lemma process_update_bill_guard:
  assumes "bill_guard p a" and "ev_peer e = p"
  shows "bill_guard p (process_update a e)"
proof (cases "conversations a p = WAITING_FOR_BILL")
  case True
  with assms(1) have ne: "current_meal_participants (the_bot a) \<noteq> []" and er: "errors a = []"
    by (auto simp: bill_guard_def)
  show ?thesis
  proof (cases "ev_update e")
    case (Command c)
    with True assms(2) er ne show ?thesis
      by (simp add: bill_guard_def process_update_def handle_def fallbacks_def cancel_def
          respond_def)
  next
    case (Message t)
    from process_bill_cases [of "ev_sheets e" "the_bot a" t] ne
    consider "process_bill (ev_sheets e) (the_bot a) t
        = Inr (respond (the_bot a) [Reply ''Invalid bill amount. Please enter a valid number.'' NoMarkup] WAITING_FOR_BILL)"
      | out where "process_bill (ev_sheets e) (the_bot a) t = Inr out" "next_state out = END"
      by blast
    then show ?thesis
    proof cases
      case 1
      with True assms(2) er ne Message show ?thesis
        by (simp add: bill_guard_def process_update_def handle_def respond_def)
    next
      case 2
      with True assms(2) er Message show ?thesis
        by (simp add: bill_guard_def process_update_def handle_def)
    qed
  qed
next
  case False
  with assms have er: "errors a = []" by (simp add: bill_guard_def)
  show ?thesis
  proof (cases "ev_update e")
    case (Command c)
    with False assms(2) er show ?thesis
      by (cases "conversations a p")
         (simp_all add: bill_guard_def process_update_def handle_def fallbacks_def handler_defs)
  next
    case (Message t)
    with False assms(2) er show ?thesis
      by (cases "conversations a p")
         (simp_all add: bill_guard_def process_update_def handle_def handler_defs Let_def)
  qed
qed

lemma run_bill_guard:
  "bill_guard p a \<Longrightarrow> \<forall>e \<in> set evs. ev_peer e = p \<Longrightarrow> bill_guard p (run a evs)"
proof (induction evs arbitrary: a)
  case Nil
  then show ?case by (simp add: run_Nil)
next
  case (Cons e evs)
  then show ?case by (simp add: run_Cons process_update_bill_guard)
qed

text \<open>
  C9, amended. When all updates come from one conversation, the division in
  \<open>process_bill\<close> never divides by zero: from the start of the application, after any
  sequence of updates of that conversation, no \<open>ZeroDivisionError\<close> has been raised,
  and whenever the conversation awaits the bill there is at least one participant.
\<close>

theorem no_zero_division_single_peer:
  "(\<forall>e \<in> set evs. ev_peer e = p) \<longrightarrow>
     ZeroDivisionError \<notin> set (errors (run (init_app now) evs))
     \<and> (conversations (run (init_app now) evs) p = WAITING_FOR_BILL \<longrightarrow>
          current_meal_participants (the_bot (run (init_app now) evs)) \<noteq> [])"
proof
  assume single: "\<forall>e \<in> set evs. ev_peer e = p"
  have "bill_guard p (init_app now)" by (simp add: bill_guard_def init_app_def)
  then have "bill_guard p (run (init_app now) evs)" using single by (rule run_bill_guard)
  then show "ZeroDivisionError \<notin> set (errors (run (init_app now) evs))
     \<and> (conversations (run (init_app now) evs) p = WAITING_FOR_BILL \<longrightarrow>
          current_meal_participants (the_bot (run (init_app now) evs)) \<noteq> [])"
    by (auto simp: bill_guard_def)
qed


theorem no_zero_division_single_peer_witness:
  "map ev_peer one_peer = [1, 1, 1, 1]
   \<and> conversations (run (init_app a_day) one_peer) 1 = WAITING_FOR_BILL
   \<and> current_meal_participants (the_bot (run (init_app a_day) one_peer)) \<noteq> []
   \<and> ZeroDivisionError \<notin> set (errors (run (init_app a_day) one_peer))"
proof -
  have s1: "strip ''Sam'' = ''Sam''" by code_simp
  have s2: "strip ''Alice'' = ''Alice''" by code_simp
  have m: "map ev_peer one_peer = [1, 1, 1, 1]" by (simp add: one_peer_def ev_def)
  have h: "\<forall>e \<in> set one_peer. ev_peer e = 1" by (simp add: one_peer_def ev_def)
  have c: "conversations (run (init_app a_day) one_peer) 1 = WAITING_FOR_BILL"
    by (simp add: one_peer_def run_Cons run_Nil process_update_def handle_def fallbacks_def
        ev_def init_app_def init_bot_def handler_defs s1 s2 dict_keys_def)
  show ?thesis
    using m h c no_zero_division_single_peer [of one_peer 1 a_day] by blast
qed

text \<open>
  Every handler keeps the participant names distinct up to letter case, so every
  update of the application does.
\<close>

lemma ci_unique_add_participant: "ci_unique b \<Longrightarrow> ci_unique (self (add_participant b t))"
  by (simp add: ci_unique_def add_participant_def respond_def Let_def dict_keys_dict_set)

lemma ci_unique_confirm_participant_removal:
  "ci_unique b \<Longrightarrow> ci_unique (self (confirm_participant_removal b t))"
  by (simp add: ci_unique_def confirm_participant_removal_def respond_def Let_def
      dict_keys_dict_del removeAll_filter_not_eq distinct_map_filter)

lemma ci_unique_process_bill:
  "ci_unique b \<Longrightarrow> process_bill env b t = Inr out \<Longrightarrow> ci_unique (self out)"
  using process_bill_cases [of env b t] by (auto simp: ci_unique_def respond_def)

lemma ci_unique_process_update:
  assumes "ci_unique (the_bot a)"
  shows "ci_unique (the_bot (process_update a e))"
proof (cases "ev_update e")
  case (Command c)
  with assms show ?thesis
    by (cases "conversations a (ev_peer e)")
       (auto simp: process_update_def handle_def fallbacks_def start_def start_meal_def
          remove_participant_def list_participants_def finish_participants_def cancel_def
          respond_def ci_unique_def dict_keys_def)
next
  case (Message t)
  show ?thesis
  proof (cases "conversations a (ev_peer e)")
    case WAITING_FOR_BILL
    with Message assms show ?thesis
      by (cases "process_bill (ev_sheets e) (the_bot a) t")
         (simp_all add: process_update_def handle_def ci_unique_process_bill)
  next
    case WAITING_FOR_PARTICIPANTS
    with Message assms show ?thesis
      by (simp add: process_update_def handle_def ci_unique_add_participant)
  next
    case REMOVING_PARTICIPANT
    with Message assms show ?thesis
      by (simp add: process_update_def handle_def ci_unique_confirm_participant_removal)
  next
    case WAITING_FOR_PURCHASER_INFO
    with Message assms show ?thesis
      by (simp add: process_update_def handle_def collect_purchaser_name_def respond_def
          ci_unique_def Let_def)
  next
    case END
    with Message assms show ?thesis
      by (simp add: process_update_def handle_def)
  qed
qed

lemma ci_unique_run: "ci_unique (the_bot a) \<Longrightarrow> ci_unique (the_bot (run a evs))"
  by (induction evs arbitrary: a) (simp_all add: run_Nil run_Cons ci_unique_process_update)

text \<open>
  C2. Adding a name that equals a present participant up to letter case changes nothing
  in the bot, sends the duplicate message and returns the collection state. So
  \<open>add_participant\<close> keeps the names distinct up to case, and in every state that the
  application reaches, by any sequence of updates of any conversations, no two
  participants are equal up to case.
\<close>

theorem duplicate_rejected:
  "(lower (strip txt) \<in> set (map lower (dict_keys (current_meal_participants b))) \<longrightarrow>
      add_participant b txt
        = respond b [Reply (strip txt @ '' is already in the participant list.'') NoMarkup]
            WAITING_FOR_PARTICIPANTS)
   \<and> (ci_unique b \<longrightarrow> ci_unique (self (add_participant b txt)))
   \<and> ci_unique (the_bot (run (init_app now) evs))"
proof (intro conjI impI)
  assume "lower (strip txt) \<in> set (map lower (dict_keys (current_meal_participants b)))"
  then show "add_participant b txt
        = respond b [Reply (strip txt @ '' is already in the participant list.'') NoMarkup]
            WAITING_FOR_PARTICIPANTS"
    by (simp add: add_participant_def Let_def)
next
  assume "ci_unique b"
  then show "ci_unique (self (add_participant b txt))" by (rule ci_unique_add_participant)
next
  have "ci_unique (the_bot (init_app now))"
    by (simp add: ci_unique_def init_app_def init_bot_def dict_keys_def)
  then show "ci_unique (the_bot (run (init_app now) evs))" by (rule ci_unique_run)
qed

theorem duplicate_rejected_witness:
  "lower (strip '' ALICE '') \<in> set (map lower (dict_keys (current_meal_participants bot_alice)))
   \<and> ci_unique bot_alice
   \<and> add_participant bot_alice '' ALICE ''
       = respond bot_alice [Reply ''ALICE is already in the participant list.'' NoMarkup]
           WAITING_FOR_PARTICIPANTS
   \<and> ci_unique (self (add_participant bot_alice '' ALICE ''))"
proof -
  have s: "strip '' ALICE '' = ''ALICE''" by code_simp
  have l1: "lower ''ALICE'' = ''alice''" by code_simp
  have l2: "lower ''Alice'' = ''alice''" by code_simp
  have h: "lower (strip '' ALICE '') \<in> set (map lower (dict_keys (current_meal_participants bot_alice)))"
    by (simp add: s l1 l2 bot_alice_def dict_keys_def)
  have u: "ci_unique bot_alice" by (simp add: ci_unique_def bot_alice_def dict_keys_def)
  show ?thesis
    using h u duplicate_rejected [of "'' ALICE ''" bot_alice a_day "[]"]
    by (simp add: s respond_def)
qed


end
